theory Spec2Isabelle
  imports Main "HOL-Library.Word" "HOL-Library.Signed_Division"
begin

section \<open>Data model of tetris.c\<close>

text \<open>
  The C \<open>int\<close> of the piece identifier is a 32-bit two's-complement integer: it is a
  \<open>32 word\<close>, read with \<open>sint\<close>, and \<open>id_contador++\<close> is \<open>+ 1\<close> on words, which wraps
  from \<open>INT_MAX\<close> to \<open>INT_MIN\<close> as the machine does (ISO C leaves the overflow
  undefined). The indices and counts of the containers stay within \<open>-1 .. 5\<close> in every
  state the program can reach (shown below), so they are \<open>int\<close>. The C operator \<open>%\<close>
  truncates towards zero: it is \<open>smod\<close>. An array is the list of its elements.

  The field \<open>id\<close> of \<open>Peca\<close> is \<open>idp\<close> here and the field \<open>itens\<close> of \<open>Pilha\<close> is
  \<open>itensP\<close>: \<open>id\<close> is the identity function of HOL, and two records cannot share a
  field name.
\<close>

type_synonym c_int = "32 word"

definition FILA_MAX :: int where
  "FILA_MAX = 5"

definition PILHA_MAX :: int where
  "PILHA_MAX = 3"

record Peca =
  nome :: char
  idp :: c_int

record Fila =
  itens :: "Peca list"
  inicio :: int
  fim :: int
  total :: int

record Pilha =
  itensP :: "Peca list"
  topo :: int

text \<open>The value of the initialiser \<open>{{-1}, -1}\<close>: the byte \<open>0xFF\<close> and the id \<open>-1\<close>.\<close>

definition peca_invalida :: Peca where
  "peca_invalida = \<lparr>nome = CHR 0xFF, idp = - 1\<rparr>"

subsection \<open>Queue\<close>

definition inicializarFila :: "Fila \<Rightarrow> Fila" where
  "inicializarFila f = f\<lparr>inicio := 0, fim := 0, total := 0\<rparr>"

definition filaVazia :: "Fila \<Rightarrow> bool" where
  "filaVazia f = (total f = 0)"

definition filaCheia :: "Fila \<Rightarrow> bool" where
  "filaCheia f = (total f = FILA_MAX)"

definition inserirFila :: "Fila \<Rightarrow> Peca \<Rightarrow> Fila" where
  "inserirFila f p =
     (if filaCheia f then f
      else f\<lparr>itens := (itens f)[nat (fim f) := p],
             fim := (fim f + 1) smod FILA_MAX,
             total := total f + 1\<rparr>)"

definition removerFila :: "Fila \<Rightarrow> Peca \<times> Fila" where
  "removerFila f =
     (if filaVazia f then (peca_invalida, f)
      else (itens f ! nat (inicio f),
            f\<lparr>inicio := (inicio f + 1) smod FILA_MAX, total := total f - 1\<rparr>))"

subsection \<open>Stack\<close>

definition inicializarPilha :: "Pilha \<Rightarrow> Pilha" where
  "inicializarPilha p = p\<lparr>topo := - 1\<rparr>"

definition pilhaVazia :: "Pilha \<Rightarrow> bool" where
  "pilhaVazia p = (topo p = - 1)"

definition pilhaCheia :: "Pilha \<Rightarrow> bool" where
  "pilhaCheia p = (topo p = PILHA_MAX - 1)"

definition pushPilha :: "Pilha \<Rightarrow> Peca \<Rightarrow> Pilha" where
  "pushPilha p peca =
     (if pilhaCheia p then p
      else p\<lparr>itensP := (itensP p)[nat (topo p + 1) := peca], topo := topo p + 1\<rparr>)"

definition popPilha :: "Pilha \<Rightarrow> Peca \<times> Pilha" where
  "popPilha p =
     (if pilhaVazia p then (peca_invalida, p)
      else (itensP p ! nat (topo p), p\<lparr>topo := topo p - 1\<rparr>))"

subsection \<open>Piece generator\<close>

text \<open>
  \<open>gerarPeca r c\<close>: \<open>r\<close> is the value \<open>rand()\<close> returns in the call (between 0 and
  \<open>RAND_MAX\<close>), \<open>c\<close> the static counter \<open>id_contador\<close> before it; the result is the piece
  and the counter after the call.
\<close>

definition tipos :: string where
  "tipos = ''IOTLSZJ''"

definition gerarPeca :: "nat \<Rightarrow> c_int \<Rightarrow> Peca \<times> c_int" where
  "gerarPeca r c = (\<lparr>nome = tipos ! (r mod 7), idp = c\<rparr>, c + 1)"

section \<open>The game: the body of \<open>main\<close>\<close>

text \<open>
  The state of \<open>main\<close>: its two local containers and the static counter of \<open>gerarPeca\<close>.
\<close>

record Jogo =
  filaDePecas :: Fila
  pilhaDeReserva :: Pilha
  id_contador :: c_int

text \<open>What a pass through the \<open>switch\<close> prints, one constructor for each message.\<close>

datatype Acao =
    PecaJogada Peca
  | FilaVaziaJogar
  | ReservaCheia
  | FilaVaziaReservar
  | PecaReservada Peca
  | PecaUsada Peca
  | ReservaVazia
  | TrocaImpossivel
  | TrocaRealizada
  | TrocaMultiplaImpossivel
  | TrocaMultiplaRealizada
  | Encerrando
  | OpcaoInvalida

text \<open>\<open>case 1\<close>: play the piece at the front of the queue.\<close>

definition jogarPeca :: "nat \<Rightarrow> Jogo \<Rightarrow> Acao \<times> Jogo" where
  "jogarPeca r g =
     (if \<not> filaVazia (filaDePecas g) then
        (let (jogada, f1) = removerFila (filaDePecas g);
             (nova, c1) = gerarPeca r (id_contador g)
         in (PecaJogada jogada,
             g\<lparr>filaDePecas := inserirFila f1 nova, id_contador := c1\<rparr>))
      else (FilaVaziaJogar, g))"

text \<open>\<open>case 2\<close>: move the piece at the front of the queue to the stack.\<close>

definition reservarPeca :: "nat \<Rightarrow> Jogo \<Rightarrow> Acao \<times> Jogo" where
  "reservarPeca r g =
     (if pilhaCheia (pilhaDeReserva g) then (ReservaCheia, g)
      else if filaVazia (filaDePecas g) then (FilaVaziaReservar, g)
      else
        (let (reservada, f1) = removerFila (filaDePecas g);
             p1 = pushPilha (pilhaDeReserva g) reservada;
             (nova, c1) = gerarPeca r (id_contador g)
         in (PecaReservada reservada,
             g\<lparr>filaDePecas := inserirFila f1 nova, pilhaDeReserva := p1,
               id_contador := c1\<rparr>)))"

text \<open>\<open>case 3\<close>: use the piece on top of the stack.\<close>

definition usarReservada :: "Jogo \<Rightarrow> Acao \<times> Jogo" where
  "usarReservada g =
     (if \<not> pilhaVazia (pilhaDeReserva g) then
        (let (usada, p1) = popPilha (pilhaDeReserva g)
         in (PecaUsada usada, g\<lparr>pilhaDeReserva := p1\<rparr>))
      else (ReservaVazia, g))"

text \<open>
  The three assignments through \<open>temp\<close> that \<open>case 4\<close> and the loop of \<open>case 5\<close> share:
  the slot \<open>i\<close> of the queue's array and the slot \<open>j\<close> of the stack's array exchange
  their values.
\<close>

definition trocar :: "int \<Rightarrow> int \<Rightarrow> Fila \<times> Pilha \<Rightarrow> Fila \<times> Pilha" where
  "trocar i j fp =
     (let f = fst fp; p = snd fp;
          temp = itens f ! nat i;
          f1 = f\<lparr>itens := (itens f)[nat i := itensP p ! nat j]\<rparr>;
          p1 = p\<lparr>itensP := (itensP p)[nat j := temp]\<rparr>
      in (f1, p1))"

text \<open>\<open>case 4\<close>: exchange the front of the queue with the top of the stack.\<close>

definition trocarFrente :: "Jogo \<Rightarrow> Acao \<times> Jogo" where
  "trocarFrente g =
     (if filaVazia (filaDePecas g) \<or> pilhaVazia (pilhaDeReserva g) then (TrocaImpossivel, g)
      else
        (let (f1, p1) = trocar (inicio (filaDePecas g)) (topo (pilhaDeReserva g))
                          (filaDePecas g, pilhaDeReserva g)
         in (TrocaRealizada, g\<lparr>filaDePecas := f1, pilhaDeReserva := p1\<rparr>)))"

text \<open>\<open>case 5\<close>: the loop \<open>for (int i = 0; i < 3; i++)\<close>, entered at \<open>i\<close>.\<close>

function trocaLaco :: "int \<Rightarrow> Fila \<times> Pilha \<Rightarrow> Fila \<times> Pilha" where
  "trocaLaco i fp =
     (if i < 3 then
        (let idx_fila = (inicio (fst fp) + i) smod FILA_MAX;
             idx_pilha = topo (snd fp) - i
         in trocaLaco (i + 1) (trocar idx_fila idx_pilha fp))
      else fp)"
  by pat_completeness auto
termination
  by (relation "measure (\<lambda>(i, fp). nat (3 - i))") auto

definition trocaMultipla :: "Jogo \<Rightarrow> Acao \<times> Jogo" where
  "trocaMultipla g =
     (if total (filaDePecas g) < 3 \<or> topo (pilhaDeReserva g) < 2
      then (TrocaMultiplaImpossivel, g)
      else
        (let (f1, p1) = trocaLaco 0 (filaDePecas g, pilhaDeReserva g)
         in (TrocaMultiplaRealizada, g\<lparr>filaDePecas := f1, pilhaDeReserva := p1\<rparr>)))"

text \<open>
  One pass through the \<open>switch\<close> on \<open>opcao\<close>; \<open>r\<close> is what \<open>rand()\<close> returns if the pass
  calls \<open>gerarPeca\<close>.
\<close>

definition opcaoSwitch :: "int \<Rightarrow> nat \<Rightarrow> Jogo \<Rightarrow> Acao \<times> Jogo" where
  "opcaoSwitch opcao r g =
     (if opcao = 1 then jogarPeca r g
      else if opcao = 2 then reservarPeca r g
      else if opcao = 3 then usarReservada g
      else if opcao = 4 then trocarFrente g
      else if opcao = 5 then trocaMultipla g
      else if opcao = 0 then (Encerrando, g)
      else (OpcaoInvalida, g))"

text \<open>
  The start of \<open>main\<close>: \<open>f0\<close> and \<open>p0\<close> are the two local structures as declared (their
  contents are whatever the memory holds), \<open>rnd k\<close> is what the \<open>k\<close>-th call of \<open>rand()\<close>
  returns. The loop \<open>for (int i = 0; i < FILA_MAX; i++)\<close> is \<open>preencher\<close>, entered at \<open>i\<close>.
\<close>

function preencher :: "int \<Rightarrow> (nat \<Rightarrow> nat) \<Rightarrow> Fila \<times> c_int \<Rightarrow> Fila \<times> c_int" where
  "preencher i rnd fc =
     (if i < FILA_MAX then
        (let (p, c1) = gerarPeca (rnd (nat i)) (snd fc)
         in preencher (i + 1) rnd (inserirFila (fst fc) p, c1))
      else fc)"
  by pat_completeness auto
termination
  by (relation "measure (\<lambda>(i, rnd, fc). nat (FILA_MAX - i))") auto

definition mainInicio :: "Fila \<Rightarrow> Pilha \<Rightarrow> (nat \<Rightarrow> nat) \<Rightarrow> Jogo" where
  "mainInicio f0 p0 rnd =
     (let (f1, c1) = preencher 0 rnd (inicializarFila f0, 0)
      in \<lparr>filaDePecas = f1, pilhaDeReserva = inicializarPilha p0, id_contador = c1\<rparr>)"

text \<open>
  The \<open>do ... while (opcao != 0)\<close> loop on the commands read so far, each with the value
  \<open>rand()\<close> has ready for it: the state after the last of them, or after the first 0.
\<close>

fun mainLaco :: "Jogo \<Rightarrow> (int \<times> nat) list \<Rightarrow> Jogo" where
  "mainLaco g [] = g"
| "mainLaco g ((opcao, r) # cs) =
     (let g1 = snd (opcaoSwitch opcao r g)
      in if opcao \<noteq> 0 then mainLaco g1 cs else g1)"

section \<open>Well-formed states\<close>

text \<open>
  The relation between the three indices of the queue, and the range of the stack's top.
\<close>

definition fila_inv :: "Fila \<Rightarrow> bool" where
  "fila_inv f =
     (fim f = (inicio f + total f) mod FILA_MAX \<and> 0 \<le> total f \<and> total f \<le> FILA_MAX \<and>
      0 \<le> inicio f \<and> inicio f < FILA_MAX)"

definition pilha_inv :: "Pilha \<Rightarrow> bool" where
  "pilha_inv p = (- 1 \<le> topo p \<and> topo p \<le> PILHA_MAX - 1)"

text \<open>
  A state of the game as C has it: the arrays have their declared sizes \<open>Peca itens[FILA_MAX]\<close>
  and \<open>Peca itens[PILHA_MAX]\<close>, and the indices are in range. Every access to an array is
  then inside it (\<open>acessos_validos\<close> below), and \<open>main\<close> reaches no other state
  (\<open>jogo_ok_main\<close>).
\<close>

definition jogo_ok :: "Jogo \<Rightarrow> bool" where
  "jogo_ok g =
     (int (length (itens (filaDePecas g))) = FILA_MAX \<and>
      int (length (itensP (pilhaDeReserva g))) = PILHA_MAX \<and>
      fila_inv (filaDePecas g) \<and> pilha_inv (pilhaDeReserva g))"

text \<open>
  The two expressions \<open>case 5\<close> indexes with: the element \<open>i\<close> places behind the front
  of the queue, \<open>itens[(inicio + i) % FILA_MAX]\<close>, and the element \<open>i\<close> places below the
  top of the stack, \<open>itens[topo - i]\<close>.
\<close>

definition posFila :: "Fila \<Rightarrow> int \<Rightarrow> Peca" where
  "posFila f i = itens f ! nat ((inicio f + i) smod FILA_MAX)"

definition posPilha :: "Pilha \<Rightarrow> int \<Rightarrow> Peca" where
  "posPilha p i = itensP p ! nat (topo p - i)"

subsection \<open>Sequences of operations\<close>

text \<open>
  The state of \<open>main\<close> after \<open>inicializarFila\<close> and \<open>inicializarPilha\<close>, and the states
  that any sequence of the container operations and of passes through the \<open>switch\<close>
  leads to from a state.
\<close>

definition inicial :: "Fila \<Rightarrow> Pilha \<Rightarrow> Jogo" where
  "inicial f0 p0 =
     \<lparr>filaDePecas = inicializarFila f0, pilhaDeReserva = inicializarPilha p0, id_contador = 0\<rparr>"

datatype Operacao = Inserir Peca | Remover | Push Peca | Pop | Opcao int nat

fun aplicar :: "Operacao \<Rightarrow> Jogo \<Rightarrow> Jogo" where
  "aplicar (Inserir x) g = g\<lparr>filaDePecas := inserirFila (filaDePecas g) x\<rparr>"
| "aplicar Remover g = g\<lparr>filaDePecas := snd (removerFila (filaDePecas g))\<rparr>"
| "aplicar (Push x) g = g\<lparr>pilhaDeReserva := pushPilha (pilhaDeReserva g) x\<rparr>"
| "aplicar Pop g = g\<lparr>pilhaDeReserva := snd (popPilha (pilhaDeReserva g))\<rparr>"
| "aplicar (Opcao opcao r) g = snd (opcaoSwitch opcao r g)"

fun executar :: "Jogo \<Rightarrow> Operacao list \<Rightarrow> Jogo" where
  "executar g [] = g"
| "executar g (x # xs) = executar (aplicar x g) xs"

subsection \<open>A concrete state\<close>

text \<open>
  A full queue whose front is at slot 3, so that it wraps around the end of the array
  (front to back: I0, O1, T2, L3, S4), and a full stack (top to bottom: I12, J11, Z10).
\<close>

definition exemploFila :: Fila where
  "exemploFila =
     \<lparr>itens = [\<lparr>nome = CHR ''T'', idp = 2\<rparr>, \<lparr>nome = CHR ''L'', idp = 3\<rparr>,
               \<lparr>nome = CHR ''S'', idp = 4\<rparr>, \<lparr>nome = CHR ''I'', idp = 0\<rparr>,
               \<lparr>nome = CHR ''O'', idp = 1\<rparr>],
      inicio = 3, fim = 3, total = 5\<rparr>"

definition exemploPilha :: Pilha where
  "exemploPilha =
     \<lparr>itensP = [\<lparr>nome = CHR ''Z'', idp = 10\<rparr>, \<lparr>nome = CHR ''J'', idp = 11\<rparr>,
                \<lparr>nome = CHR ''I'', idp = 12\<rparr>],
      topo = 2\<rparr>"

definition exemplo :: Jogo where
  "exemplo = \<lparr>filaDePecas = exemploFila, pilhaDeReserva = exemploPilha, id_contador = 13\<rparr>"

section \<open>The queue's indices\<close>

declare trocaLaco.simps [simp del]
declare preencher.simps [simp del]

lemma smod_nonneg: "0 \<le> a \<Longrightarrow> 0 < b \<Longrightarrow> a smod b = a mod (b::int)"
  by (simp add: signed_modulo_int_def sgn_if)

lemma fila_inv_inicializar: "fila_inv (inicializarFila f)"
  by (simp add: fila_inv_def inicializarFila_def FILA_MAX_def)

lemma fila_inv_inserir:
  assumes "fila_inv f"
  shows "fila_inv (inserirFila f x)"
proof (cases "filaCheia f")
  case True
  then show ?thesis using assms by (simp add: inserirFila_def)
next
  case False
  have nn: "0 \<le> fim f + 1"
    using assms by (simp add: fila_inv_def FILA_MAX_def)
  have "(fim f + 1) smod 5 = (fim f + 1) mod 5"
    by (simp add: smod_nonneg [OF nn])
  also have "\<dots> = (inicio f + (total f + 1)) mod 5"
    using assms by (simp add: fila_inv_def FILA_MAX_def mod_simps add.assoc)
  finally have "(fim f + 1) smod 5 = (inicio f + (total f + 1)) mod 5" .
  then show ?thesis
    using assms False by (simp add: inserirFila_def fila_inv_def filaCheia_def FILA_MAX_def)
qed

lemma fila_inv_remover:
  assumes "fila_inv f"
  shows "fila_inv (snd (removerFila f))"
proof (cases "filaVazia f")
  case True
  then show ?thesis using assms by (simp add: removerFila_def)
next
  case False
  have nn: "0 \<le> inicio f + 1"
    using assms by (simp add: fila_inv_def)
  have m: "(inicio f + 1) smod 5 = (inicio f + 1) mod 5"
    by (simp add: smod_nonneg [OF nn])
  have "fim f = ((inicio f + 1) mod 5 + (total f - 1)) mod 5"
    using assms by (simp add: fila_inv_def FILA_MAX_def mod_simps)
  then show ?thesis
    using assms False m by (simp add: removerFila_def fila_inv_def filaVazia_def FILA_MAX_def)
qed

lemma trocar_fila: "inicio (fst (trocar i j fp)) = inicio (fst fp)"
  "fim (fst (trocar i j fp)) = fim (fst fp)"
  "total (fst (trocar i j fp)) = total (fst fp)"
  "topo (snd (trocar i j fp)) = topo (snd fp)"
  "length (itens (fst (trocar i j fp))) = length (itens (fst fp))"
  "length (itensP (snd (trocar i j fp))) = length (itensP (snd fp))"
  by (simp_all add: trocar_def Let_def)

lemma trocaLaco_0:
  "trocaLaco 0 fp =
     trocar ((inicio (fst fp) + 2) smod FILA_MAX) (topo (snd fp) - 2)
       (trocar ((inicio (fst fp) + 1) smod FILA_MAX) (topo (snd fp) - 1)
         (trocar (inicio (fst fp) smod FILA_MAX) (topo (snd fp)) fp))"
  by (simp add: trocaLaco.simps [of 0] trocaLaco.simps [of 1] trocaLaco.simps [of 2]
      trocaLaco.simps [of 3] trocar_fila Let_def)

lemma trocaLaco_fila: "inicio (fst (trocaLaco 0 fp)) = inicio (fst fp)"
  "fim (fst (trocaLaco 0 fp)) = fim (fst fp)"
  "total (fst (trocaLaco 0 fp)) = total (fst fp)"
  "topo (snd (trocaLaco 0 fp)) = topo (snd fp)"
  "length (itens (fst (trocaLaco 0 fp))) = length (itens (fst fp))"
  "length (itensP (snd (trocaLaco 0 fp))) = length (itensP (snd fp))"
  by (simp_all add: trocaLaco_0 trocar_fila)

lemma fila_inv_cong:
  "inicio f' = inicio f \<Longrightarrow> fim f' = fim f \<Longrightarrow> total f' = total f \<Longrightarrow> fila_inv f' = fila_inv f"
  by (simp add: fila_inv_def)

lemma fila_inv_jogar: "fila_inv (filaDePecas g) \<Longrightarrow> fila_inv (filaDePecas (snd (jogarPeca r g)))"
  by (simp add: jogarPeca_def split_beta Let_def fila_inv_inserir fila_inv_remover)

lemma fila_inv_reservar:
  "fila_inv (filaDePecas g) \<Longrightarrow> fila_inv (filaDePecas (snd (reservarPeca r g)))"
  by (simp add: reservarPeca_def split_beta Let_def fila_inv_inserir fila_inv_remover)

lemma fila_usar: "filaDePecas (snd (usarReservada g)) = filaDePecas g"
  by (simp add: usarReservada_def split_beta Let_def)

lemma fila_inv_trocarFrente:
  "fila_inv (filaDePecas g) \<Longrightarrow> fila_inv (filaDePecas (snd (trocarFrente g)))"
  by (simp add: trocarFrente_def split_beta Let_def fila_inv_cong [OF trocar_fila(1-3)])

lemma fila_inv_trocaMultipla:
  "fila_inv (filaDePecas g) \<Longrightarrow> fila_inv (filaDePecas (snd (trocaMultipla g)))"
  by (simp add: trocaMultipla_def split_beta Let_def fila_inv_cong [OF trocaLaco_fila(1-3)])

lemma fila_inv_opcaoSwitch:
  "fila_inv (filaDePecas g) \<Longrightarrow> fila_inv (filaDePecas (snd (opcaoSwitch opcao r g)))"
  by (simp add: opcaoSwitch_def fila_inv_jogar fila_inv_reservar fila_usar
      fila_inv_trocarFrente fila_inv_trocaMultipla)

lemma fila_inv_aplicar: "fila_inv (filaDePecas g) \<Longrightarrow> fila_inv (filaDePecas (aplicar x g))"
  by (cases x) (simp_all add: fila_inv_inserir fila_inv_remover fila_inv_opcaoSwitch)

lemma fila_inv_executar:
  "fila_inv (filaDePecas g) \<Longrightarrow> fila_inv (filaDePecas (executar g xs))"
  by (induction xs arbitrary: g) (simp_all add: fila_inv_aplicar)

lemma fila_inv_inicial: "fila_inv (filaDePecas (executar (inicial f0 p0) xs))"
  by (simp add: fila_inv_executar inicial_def fila_inv_inicializar)

section \<open>The stack's top, the sizes of the arrays\<close>

lemma pilha_inv_inicializar: "pilha_inv (inicializarPilha p)"
  by (simp add: pilha_inv_def inicializarPilha_def PILHA_MAX_def)

lemma pilha_inv_push: "pilha_inv p \<Longrightarrow> pilha_inv (pushPilha p x)"
  by (simp add: pilha_inv_def pushPilha_def pilhaCheia_def PILHA_MAX_def)

lemma pilha_inv_pop: "pilha_inv p \<Longrightarrow> pilha_inv (snd (popPilha p))"
  by (simp add: pilha_inv_def popPilha_def pilhaVazia_def PILHA_MAX_def)

lemma pilha_inv_cong: "topo p' = topo p \<Longrightarrow> pilha_inv p' = pilha_inv p"
  by (simp add: pilha_inv_def)

lemma length_inserir: "length (itens (inserirFila f x)) = length (itens f)"
  by (simp add: inserirFila_def)

lemma length_remover: "length (itens (snd (removerFila f))) = length (itens f)"
  by (simp add: removerFila_def)

lemma length_push: "length (itensP (pushPilha p x)) = length (itensP p)"
  by (simp add: pushPilha_def)

lemma length_pop: "length (itensP (snd (popPilha p))) = length (itensP p)"
  by (simp add: popPilha_def)

text \<open>
  In a well-formed state every index the operations use is inside its array: the slot
  \<open>fim\<close> that \<open>inserirFila\<close> writes, the slot \<open>inicio\<close> that \<open>removerFila\<close> reads, the
  slot \<open>topo + 1\<close> that \<open>pushPilha\<close> writes and the slot \<open>topo\<close> that \<open>popPilha\<close> reads.
\<close>

lemma jogo_ok_bounds:
  assumes "jogo_ok g"
  shows "0 \<le> inicio (filaDePecas g)"
    and "nat (inicio (filaDePecas g)) < length (itens (filaDePecas g))"
    and "\<not> pilhaVazia (pilhaDeReserva g) \<Longrightarrow> 0 \<le> topo (pilhaDeReserva g)"
    and "\<not> pilhaVazia (pilhaDeReserva g) \<Longrightarrow>
           nat (topo (pilhaDeReserva g)) < length (itensP (pilhaDeReserva g))"
  using assms
  by (auto simp: jogo_ok_def fila_inv_def pilha_inv_def pilhaVazia_def FILA_MAX_def PILHA_MAX_def)

lemma acessos_validos:
  assumes "jogo_ok g"
  shows "0 \<le> fim (filaDePecas g) \<and> nat (fim (filaDePecas g)) < length (itens (filaDePecas g))"
    and "\<not> pilhaCheia (pilhaDeReserva g) \<Longrightarrow>
           0 \<le> topo (pilhaDeReserva g) + 1 \<and>
           nat (topo (pilhaDeReserva g) + 1) < length (itensP (pilhaDeReserva g))"
  using assms
  by (auto simp: jogo_ok_def fila_inv_def pilha_inv_def pilhaCheia_def FILA_MAX_def PILHA_MAX_def)

section \<open>The two exchanges\<close>

text \<open>
  An array of five or of three elements is the list of its elements, and a front index
  in range is one of 0 to 4: the loop of \<open>case 5\<close> is then computed slot by slot.
\<close>

lemma length_5: "length xs = 5 \<Longrightarrow> \<exists>a b c d e. xs = [a, b, c, d, e]"
  by (auto simp: numeral_eq_Suc length_Suc_conv)

lemma length_3: "length xs = 3 \<Longrightarrow> \<exists>a b c. xs = [a, b, c]"
  by (auto simp: numeral_eq_Suc length_Suc_conv)

lemma int_cases_5: "0 \<le> (i::int) \<Longrightarrow> i < 5 \<Longrightarrow> i = 0 \<or> i = 1 \<or> i = 2 \<or> i = 3 \<or> i = 4"
  by arith

lemma smod_5_simps:
  "(0::int) smod 5 = 0" "(1::int) smod 5 = 1" "(2::int) smod 5 = 2" "(3::int) smod 5 = 3"
  "(4::int) smod 5 = 4" "(5::int) smod 5 = 0" "(6::int) smod 5 = 1" "(7::int) smod 5 = 2"
  "(8::int) smod 5 = 3"
  by (simp_all add: signed_modulo_int_def)

text \<open>The state after the three passes of the loop, for each position of the front.\<close>

lemma trocaLaco_explicit:
  assumes "itens f = [a, b, c, d, e]" and "itensP p = [x, y, z]" and "topo p = 2"
  shows "inicio f = 0 \<Longrightarrow> trocaLaco 0 (f, p) = (f\<lparr>itens := [z, y, x, d, e]\<rparr>, p\<lparr>itensP := [c, b, a]\<rparr>)"
    and "inicio f = 1 \<Longrightarrow> trocaLaco 0 (f, p) = (f\<lparr>itens := [a, z, y, x, e]\<rparr>, p\<lparr>itensP := [d, c, b]\<rparr>)"
    and "inicio f = 2 \<Longrightarrow> trocaLaco 0 (f, p) = (f\<lparr>itens := [a, b, z, y, x]\<rparr>, p\<lparr>itensP := [e, d, c]\<rparr>)"
    and "inicio f = 3 \<Longrightarrow> trocaLaco 0 (f, p) = (f\<lparr>itens := [x, b, c, z, y]\<rparr>, p\<lparr>itensP := [a, e, d]\<rparr>)"
    and "inicio f = 4 \<Longrightarrow> trocaLaco 0 (f, p) = (f\<lparr>itens := [y, x, c, d, z]\<rparr>, p\<lparr>itensP := [b, a, e]\<rparr>)"
  using assms
  by (simp_all add: trocaLaco_0 trocar_def Let_def FILA_MAX_def smod_5_simps)

lemma trocaMultipla_fail:
  "total (filaDePecas g) < 3 \<or> topo (pilhaDeReserva g) < 2 \<Longrightarrow>
   trocaMultipla g = (TrocaMultiplaImpossivel, g)"
  by (simp add: trocaMultipla_def)

lemma trocaMultipla_ok:
  assumes ok: "jogo_ok g"
    and pre: "\<not> (total (filaDePecas g) < 3 \<or> topo (pilhaDeReserva g) < 2)"
  shows "fst (trocaMultipla g) = TrocaMultiplaRealizada \<and>
     (\<forall>i \<in> {0, 1, 2}.
        posFila (filaDePecas (snd (trocaMultipla g))) i = posPilha (pilhaDeReserva g) i \<and>
        posPilha (pilhaDeReserva (snd (trocaMultipla g))) i = posFila (filaDePecas g) i) \<and>
     (\<forall>i \<in> {3, 4}.
        posFila (filaDePecas (snd (trocaMultipla g))) i = posFila (filaDePecas g) i)"
proof -
  let ?f = "filaDePecas g" and ?p = "pilhaDeReserva g"
  from ok have "length (itens ?f) = 5" and "length (itensP ?p) = 3"
    by (simp_all add: jogo_ok_def FILA_MAX_def PILHA_MAX_def)
  then obtain a b c d e x y z
    where its: "itens ?f = [a, b, c, d, e]" and itp: "itensP ?p = [x, y, z]"
    using length_5 length_3 by metis
  from ok pre have tp: "topo ?p = 2"
    by (simp add: jogo_ok_def pilha_inv_def PILHA_MAX_def)
  from ok have "inicio ?f = 0 \<or> inicio ?f = 1 \<or> inicio ?f = 2 \<or> inicio ?f = 3 \<or> inicio ?f = 4"
    by (simp add: jogo_ok_def fila_inv_def FILA_MAX_def int_cases_5)
  then show ?thesis
  proof (elim disjE)
    assume i: "inicio ?f = 0"
    show ?thesis
      using pre its itp tp i
      by (simp add: trocaMultipla_def trocaLaco_explicit(1) [OF its itp tp i] posFila_def
          posPilha_def FILA_MAX_def smod_5_simps)
  next
    assume i: "inicio ?f = 1"
    show ?thesis
      using pre its itp tp i
      by (simp add: trocaMultipla_def trocaLaco_explicit(2) [OF its itp tp i] posFila_def
          posPilha_def FILA_MAX_def smod_5_simps)
  next
    assume i: "inicio ?f = 2"
    show ?thesis
      using pre its itp tp i
      by (simp add: trocaMultipla_def trocaLaco_explicit(3) [OF its itp tp i] posFila_def
          posPilha_def FILA_MAX_def smod_5_simps)
  next
    assume i: "inicio ?f = 3"
    show ?thesis
      using pre its itp tp i
      by (simp add: trocaMultipla_def trocaLaco_explicit(4) [OF its itp tp i] posFila_def
          posPilha_def FILA_MAX_def smod_5_simps)
  next
    assume i: "inicio ?f = 4"
    show ?thesis
      using pre its itp tp i
      by (simp add: trocaMultipla_def trocaLaco_explicit(5) [OF its itp tp i] posFila_def
          posPilha_def FILA_MAX_def smod_5_simps)
  qed
qed

lemma trocaMultipla_frame:
  "total (filaDePecas (snd (trocaMultipla g))) = total (filaDePecas g) \<and>
   inicio (filaDePecas (snd (trocaMultipla g))) = inicio (filaDePecas g) \<and>
   fim (filaDePecas (snd (trocaMultipla g))) = fim (filaDePecas g) \<and>
   topo (pilhaDeReserva (snd (trocaMultipla g))) = topo (pilhaDeReserva g) \<and>
   length (itens (filaDePecas (snd (trocaMultipla g)))) = length (itens (filaDePecas g)) \<and>
   length (itensP (pilhaDeReserva (snd (trocaMultipla g)))) = length (itensP (pilhaDeReserva g)) \<and>
   id_contador (snd (trocaMultipla g)) = id_contador g"
  by (simp add: trocaMultipla_def split_beta trocaLaco_fila)

lemma trocaMultipla_twice:
  assumes ok: "jogo_ok g"
    and pre: "\<not> (total (filaDePecas g) < 3 \<or> topo (pilhaDeReserva g) < 2)"
  shows "snd (trocaMultipla (snd (trocaMultipla g))) = g"
proof -
  let ?f = "filaDePecas g" and ?p = "pilhaDeReserva g"
  from ok have "length (itens ?f) = 5" and "length (itensP ?p) = 3"
    by (simp_all add: jogo_ok_def FILA_MAX_def PILHA_MAX_def)
  then obtain a b c d e x y z
    where its: "itens ?f = [a, b, c, d, e]" and itp: "itensP ?p = [x, y, z]"
    using length_5 length_3 by metis
  from ok pre have tp: "topo ?p = 2"
    by (simp add: jogo_ok_def pilha_inv_def PILHA_MAX_def)
  from ok have "inicio ?f = 0 \<or> inicio ?f = 1 \<or> inicio ?f = 2 \<or> inicio ?f = 3 \<or> inicio ?f = 4"
    by (simp add: jogo_ok_def fila_inv_def FILA_MAX_def int_cases_5)
  then show ?thesis
  proof (elim disjE)
    assume i: "inicio ?f = 0"
    show ?thesis
      using pre its [symmetric] itp [symmetric] tp i
      by (simp add: trocaMultipla_def trocaLaco_explicit(1) [OF its itp tp i]
          trocaLaco_explicit(1) [where f = "?f\<lparr>itens := u\<rparr>" and p = "?p\<lparr>itensP := v\<rparr>" for u v])
  next
    assume i: "inicio ?f = 1"
    show ?thesis
      using pre its [symmetric] itp [symmetric] tp i
      by (simp add: trocaMultipla_def trocaLaco_explicit(2) [OF its itp tp i]
          trocaLaco_explicit(2) [where f = "?f\<lparr>itens := u\<rparr>" and p = "?p\<lparr>itensP := v\<rparr>" for u v])
  next
    assume i: "inicio ?f = 2"
    show ?thesis
      using pre its [symmetric] itp [symmetric] tp i
      by (simp add: trocaMultipla_def trocaLaco_explicit(3) [OF its itp tp i]
          trocaLaco_explicit(3) [where f = "?f\<lparr>itens := u\<rparr>" and p = "?p\<lparr>itensP := v\<rparr>" for u v])
  next
    assume i: "inicio ?f = 3"
    show ?thesis
      using pre its [symmetric] itp [symmetric] tp i
      by (simp add: trocaMultipla_def trocaLaco_explicit(4) [OF its itp tp i]
          trocaLaco_explicit(4) [where f = "?f\<lparr>itens := u\<rparr>" and p = "?p\<lparr>itensP := v\<rparr>" for u v])
  next
    assume i: "inicio ?f = 4"
    show ?thesis
      using pre its [symmetric] itp [symmetric] tp i
      by (simp add: trocaMultipla_def trocaLaco_explicit(5) [OF its itp tp i]
          trocaLaco_explicit(5) [where f = "?f\<lparr>itens := u\<rparr>" and p = "?p\<lparr>itensP := v\<rparr>" for u v])
  qed
qed

lemma trocarFrente_fail:
  "filaVazia (filaDePecas g) \<or> pilhaVazia (pilhaDeReserva g) \<Longrightarrow>
   trocarFrente g = (TrocaImpossivel, g)"
  by (simp add: trocarFrente_def)

lemma trocarFrente_ok:
  assumes ok: "jogo_ok g"
    and pre: "\<not> (filaVazia (filaDePecas g) \<or> pilhaVazia (pilhaDeReserva g))"
  shows "fst (trocarFrente g) = TrocaRealizada \<and>
     itens (filaDePecas (snd (trocarFrente g))) ! nat (inicio (filaDePecas (snd (trocarFrente g)))) =
       itensP (pilhaDeReserva g) ! nat (topo (pilhaDeReserva g)) \<and>
     itensP (pilhaDeReserva (snd (trocarFrente g))) !
         nat (topo (pilhaDeReserva (snd (trocarFrente g)))) =
       itens (filaDePecas g) ! nat (inicio (filaDePecas g)) \<and>
     (\<forall>k. k \<noteq> nat (inicio (filaDePecas g)) \<longrightarrow>
        itens (filaDePecas (snd (trocarFrente g))) ! k = itens (filaDePecas g) ! k) \<and>
     (\<forall>k. k \<noteq> nat (topo (pilhaDeReserva g)) \<longrightarrow>
        itensP (pilhaDeReserva (snd (trocarFrente g))) ! k = itensP (pilhaDeReserva g) ! k)"
proof -
  from pre have nv: "\<not> pilhaVazia (pilhaDeReserva g)" by simp
  note b = jogo_ok_bounds [OF ok]
  show ?thesis
    using pre b(2) b(4) [OF nv]
    by (simp add: trocarFrente_def trocar_def Let_def)
qed

lemma trocarFrente_frame:
  "total (filaDePecas (snd (trocarFrente g))) = total (filaDePecas g) \<and>
   inicio (filaDePecas (snd (trocarFrente g))) = inicio (filaDePecas g) \<and>
   fim (filaDePecas (snd (trocarFrente g))) = fim (filaDePecas g) \<and>
   topo (pilhaDeReserva (snd (trocarFrente g))) = topo (pilhaDeReserva g) \<and>
   length (itens (filaDePecas (snd (trocarFrente g)))) = length (itens (filaDePecas g)) \<and>
   length (itensP (pilhaDeReserva (snd (trocarFrente g)))) = length (itensP (pilhaDeReserva g)) \<and>
   id_contador (snd (trocarFrente g)) = id_contador g"
  by (simp add: trocarFrente_def split_beta trocar_fila)

lemma trocarFrente_twice:
  assumes ok: "jogo_ok g"
    and pre: "\<not> (filaVazia (filaDePecas g) \<or> pilhaVazia (pilhaDeReserva g))"
  shows "snd (trocarFrente (snd (trocarFrente g))) = g"
proof -
  from pre have nv: "\<not> pilhaVazia (pilhaDeReserva g)" by simp
  note b = jogo_ok_bounds [OF ok] 
  show ?thesis
    using pre b(2) b(4) [OF nv]
    by (simp add: trocarFrente_def trocar_def Let_def filaVazia_def pilhaVazia_def)
qed

section \<open>Every state of \<open>main\<close> is well formed\<close>

lemma jogo_ok_jogar: "jogo_ok g \<Longrightarrow> jogo_ok (snd (jogarPeca r g))"
  by (simp add: jogo_ok_def jogarPeca_def split_beta length_inserir length_remover
      fila_inv_inserir fila_inv_remover)

lemma jogo_ok_reservar: "jogo_ok g \<Longrightarrow> jogo_ok (snd (reservarPeca r g))"
  by (simp add: jogo_ok_def reservarPeca_def split_beta Let_def length_inserir length_remover
      length_push fila_inv_inserir fila_inv_remover pilha_inv_push)

lemma jogo_ok_usar: "jogo_ok g \<Longrightarrow> jogo_ok (snd (usarReservada g))"
  by (simp add: jogo_ok_def usarReservada_def split_beta length_pop pilha_inv_pop)

lemma jogo_ok_trocarFrente: "jogo_ok g \<Longrightarrow> jogo_ok (snd (trocarFrente g))"
  using trocarFrente_frame [of g]
  by (simp add: jogo_ok_def fila_inv_cong [of "filaDePecas (snd (trocarFrente g))" "filaDePecas g"]
      pilha_inv_cong [of "pilhaDeReserva (snd (trocarFrente g))" "pilhaDeReserva g"])

lemma jogo_ok_trocaMultipla: "jogo_ok g \<Longrightarrow> jogo_ok (snd (trocaMultipla g))"
  using trocaMultipla_frame [of g]
  by (simp add: jogo_ok_def fila_inv_cong [of "filaDePecas (snd (trocaMultipla g))" "filaDePecas g"]
      pilha_inv_cong [of "pilhaDeReserva (snd (trocaMultipla g))" "pilhaDeReserva g"])

lemma jogo_ok_opcaoSwitch: "jogo_ok g \<Longrightarrow> jogo_ok (snd (opcaoSwitch opcao r g))"
  by (simp add: opcaoSwitch_def jogo_ok_jogar jogo_ok_reservar jogo_ok_usar jogo_ok_trocarFrente
      jogo_ok_trocaMultipla)

lemma jogo_ok_mainLaco: "jogo_ok g \<Longrightarrow> jogo_ok (mainLaco g cs)"
proof (induction cs arbitrary: g)
  case Nil
  then show ?case by simp
next
  case (Cons c cs)
  obtain opcao r where c: "c = (opcao, r)" by (cases c)
  from Cons.prems have "jogo_ok (snd (opcaoSwitch opcao r g))"
    by (rule jogo_ok_opcaoSwitch)
  with Cons.IH show ?case by (auto simp: c Let_def)
qed

lemma preencher_0:
  "preencher 0 rnd (f, c) =
    (inserirFila (inserirFila (inserirFila (inserirFila (inserirFila f
       (fst (gerarPeca (rnd 0) c)))
       (fst (gerarPeca (rnd 1) (c + 1))))
       (fst (gerarPeca (rnd 2) (c + 2))))
       (fst (gerarPeca (rnd 3) (c + 3))))
       (fst (gerarPeca (rnd 4) (c + 4))), c + 5)"
  by (simp add: preencher.simps [of 0] preencher.simps [of 1] preencher.simps [of 2]
      preencher.simps [of 3] preencher.simps [of 4] preencher.simps [of 5]
      FILA_MAX_def gerarPeca_def add.commute)

lemma mainInicio_executar:
  "mainInicio f0 p0 rnd =
     (executar (inicial f0 p0)
        [Inserir (fst (gerarPeca (rnd 0) 0)), Inserir (fst (gerarPeca (rnd 1) 1)),
         Inserir (fst (gerarPeca (rnd 2) 2)), Inserir (fst (gerarPeca (rnd 3) 3)),
         Inserir (fst (gerarPeca (rnd 4) 4))])\<lparr>id_contador := 5\<rparr>"
  by (simp add: mainInicio_def preencher_0 inicial_def)

lemma jogo_ok_mainInicio:
  assumes "length (itens f0) = 5" and "length (itensP p0) = 3"
  shows "jogo_ok (mainInicio f0 p0 rnd)"
proof -
  have "fila_inv (filaDePecas (mainInicio f0 p0 rnd))"
    by (simp add: mainInicio_executar fila_inv_inicial del: executar.simps)
  moreover have "length (itens (filaDePecas (mainInicio f0 p0 rnd))) = 5"
    using assms by (simp add: mainInicio_def preencher_0 length_inserir inicializarFila_def)
  moreover have "pilhaDeReserva (mainInicio f0 p0 rnd) = inicializarPilha p0"
    by (simp add: mainInicio_def preencher_0)
  ultimately show ?thesis
    using assms by (simp add: jogo_ok_def pilha_inv_def FILA_MAX_def PILHA_MAX_def
        inicializarPilha_def)
qed

lemma jogo_ok_main:
  "length (itens f0) = 5 \<Longrightarrow> length (itensP p0) = 3 \<Longrightarrow>
   jogo_ok (mainLaco (mainInicio f0 p0 rnd) cs)"
  by (simp add: jogo_ok_mainLaco jogo_ok_mainInicio)

lemma jogo_ok_exemplo: "jogo_ok exemplo"
  by (simp add: jogo_ok_def exemplo_def exemploFila_def exemploPilha_def fila_inv_def
      pilha_inv_def FILA_MAX_def PILHA_MAX_def)

section \<open>The queue stays full\<close>

lemma total_jogar:
  "total (filaDePecas g) = FILA_MAX \<Longrightarrow> total (filaDePecas (snd (jogarPeca r g))) = FILA_MAX"
  by (simp add: jogarPeca_def split_beta Let_def removerFila_def inserirFila_def filaVazia_def
      filaCheia_def FILA_MAX_def)

lemma total_reservar:
  "total (filaDePecas g) = FILA_MAX \<Longrightarrow> total (filaDePecas (snd (reservarPeca r g))) = FILA_MAX"
  by (simp add: reservarPeca_def split_beta Let_def removerFila_def inserirFila_def filaVazia_def
      filaCheia_def FILA_MAX_def)

lemma total_trocarFrente: "total (filaDePecas (snd (trocarFrente g))) = total (filaDePecas g)"
  by (simp add: trocarFrente_def split_beta Let_def trocar_fila)

lemma total_trocaMultipla: "total (filaDePecas (snd (trocaMultipla g))) = total (filaDePecas g)"
  by (simp add: trocaMultipla_def split_beta Let_def trocaLaco_fila)

lemma total_opcaoSwitch:
  "total (filaDePecas g) = FILA_MAX \<Longrightarrow>
   total (filaDePecas (snd (opcaoSwitch opcao r g))) = FILA_MAX"
  by (simp add: opcaoSwitch_def total_jogar total_reservar fila_usar total_trocarFrente
      total_trocaMultipla)

lemma total_mainLaco:
  "total (filaDePecas g) = FILA_MAX \<Longrightarrow> total (filaDePecas (mainLaco g cs)) = FILA_MAX"
proof (induction cs arbitrary: g)
  case Nil
  then show ?case by simp
next
  case (Cons c cs)
  obtain opcao r where c: "c = (opcao, r)" by (cases c)
  from Cons.prems have "total (filaDePecas (snd (opcaoSwitch opcao r g))) = FILA_MAX"
    by (rule total_opcaoSwitch)
  with Cons.IH show ?case by (auto simp: c Let_def)
qed

lemma total_inserir_lt:
  "total f < FILA_MAX \<Longrightarrow> total (inserirFila f x) = total f + 1"
  by (simp add: inserirFila_def filaCheia_def)

lemma total_mainInicio: "total (filaDePecas (mainInicio f0 p0 rnd)) = FILA_MAX"
  by (simp add: mainInicio_def preencher_0 total_inserir_lt inicializarFila_def FILA_MAX_def)

text \<open>
  What a full queue holds after its front is removed and a piece \<open>x\<close> is inserted: the
  removed piece is the one at the front, the other four move up one place and \<open>x\<close> is
  the last. Commands 1 and 2 do this with the generated piece.
\<close>

lemma fila_refill:
  assumes len: "int (length (itens f)) = FILA_MAX" and inv: "fila_inv f"
    and cheia: "total f = FILA_MAX"
  shows "fst (removerFila f) = posFila f 0 \<and>
     posFila (inserirFila (snd (removerFila f)) x) 0 = posFila f 1 \<and>
     posFila (inserirFila (snd (removerFila f)) x) 1 = posFila f 2 \<and>
     posFila (inserirFila (snd (removerFila f)) x) 2 = posFila f 3 \<and>
     posFila (inserirFila (snd (removerFila f)) x) 3 = posFila f 4 \<and>
     posFila (inserirFila (snd (removerFila f)) x) 4 = x \<and>
     total (inserirFila (snd (removerFila f)) x) = FILA_MAX"
proof -
  from len have "length (itens f) = 5" by (simp add: FILA_MAX_def)
  then obtain a b c d e where its: "itens f = [a, b, c, d, e]"
    using length_5 by blast
  from inv cheia have fm: "fim f = inicio f"
    by (simp add: fila_inv_def FILA_MAX_def)
  from inv have "inicio f = 0 \<or> inicio f = 1 \<or> inicio f = 2 \<or> inicio f = 3 \<or> inicio f = 4"
    by (simp add: fila_inv_def FILA_MAX_def int_cases_5)
  then show ?thesis
    using its fm cheia
    by (elim disjE)
      (simp_all add: removerFila_def inserirFila_def filaVazia_def filaCheia_def posFila_def
        FILA_MAX_def smod_5_simps)
qed

lemma jogarPeca_ok:
  assumes ok: "jogo_ok g" and cheia: "total (filaDePecas g) = FILA_MAX"
  shows "fst (jogarPeca r g) = PecaJogada (posFila (filaDePecas g) 0) \<and>
     posFila (filaDePecas (snd (jogarPeca r g))) 0 = posFila (filaDePecas g) 1 \<and>
     posFila (filaDePecas (snd (jogarPeca r g))) 1 = posFila (filaDePecas g) 2 \<and>
     posFila (filaDePecas (snd (jogarPeca r g))) 2 = posFila (filaDePecas g) 3 \<and>
     posFila (filaDePecas (snd (jogarPeca r g))) 3 = posFila (filaDePecas g) 4 \<and>
     posFila (filaDePecas (snd (jogarPeca r g))) 4 =
       \<lparr>nome = tipos ! (r mod 7), idp = id_contador g\<rparr> \<and>
     total (filaDePecas (snd (jogarPeca r g))) = FILA_MAX \<and>
     pilhaDeReserva (snd (jogarPeca r g)) = pilhaDeReserva g \<and>
     id_contador (snd (jogarPeca r g)) = id_contador g + 1"
proof -
  from ok have len: "int (length (itens (filaDePecas g))) = FILA_MAX"
    and inv: "fila_inv (filaDePecas g)"
    by (simp_all add: jogo_ok_def)
  from cheia have nv: "\<not> filaVazia (filaDePecas g)"
    by (simp add: filaVazia_def FILA_MAX_def)
  show ?thesis
    using fila_refill [OF len inv cheia, of "\<lparr>nome = tipos ! (r mod 7), idp = id_contador g\<rparr>"] nv
    by (simp add: jogarPeca_def split_beta gerarPeca_def)
qed

lemma reservarPeca_ok:
  assumes ok: "jogo_ok g" and cheia: "total (filaDePecas g) = FILA_MAX"
    and livre: "\<not> pilhaCheia (pilhaDeReserva g)"
  shows "fst (reservarPeca r g) = PecaReservada (posFila (filaDePecas g) 0) \<and>
     posFila (filaDePecas (snd (reservarPeca r g))) 0 = posFila (filaDePecas g) 1 \<and>
     posFila (filaDePecas (snd (reservarPeca r g))) 1 = posFila (filaDePecas g) 2 \<and>
     posFila (filaDePecas (snd (reservarPeca r g))) 2 = posFila (filaDePecas g) 3 \<and>
     posFila (filaDePecas (snd (reservarPeca r g))) 3 = posFila (filaDePecas g) 4 \<and>
     posFila (filaDePecas (snd (reservarPeca r g))) 4 =
       \<lparr>nome = tipos ! (r mod 7), idp = id_contador g\<rparr> \<and>
     total (filaDePecas (snd (reservarPeca r g))) = FILA_MAX \<and>
     topo (pilhaDeReserva (snd (reservarPeca r g))) = topo (pilhaDeReserva g) + 1 \<and>
     posPilha (pilhaDeReserva (snd (reservarPeca r g))) 0 = posFila (filaDePecas g) 0 \<and>
     (\<forall>k. k \<noteq> nat (topo (pilhaDeReserva g) + 1) \<longrightarrow>
        itensP (pilhaDeReserva (snd (reservarPeca r g))) ! k = itensP (pilhaDeReserva g) ! k) \<and>
     length (itensP (pilhaDeReserva (snd (reservarPeca r g)))) =
       length (itensP (pilhaDeReserva g)) \<and>
     id_contador (snd (reservarPeca r g)) = id_contador g + 1"
proof -
  from ok have len: "int (length (itens (filaDePecas g))) = FILA_MAX"
    and inv: "fila_inv (filaDePecas g)"
    by (simp_all add: jogo_ok_def)
  from cheia have nv: "\<not> filaVazia (filaDePecas g)"
    by (simp add: filaVazia_def FILA_MAX_def)
  note av = acessos_validos(2) [OF ok livre]
  show ?thesis
    using fila_refill [OF len inv cheia, of "\<lparr>nome = tipos ! (r mod 7), idp = id_contador g\<rparr>"]
      nv livre av
    by (simp add: reservarPeca_def split_beta Let_def gerarPeca_def pushPilha_def posPilha_def)
qed

section \<open>The generator\<close>

text \<open>
  The counter is 5 when the loop of \<open>main\<close> starts, and each piece played adds 1 to it.
\<close>

lemma contador_mainInicio: "id_contador (mainInicio f0 p0 rnd) = 5"
  by (simp add: mainInicio_def preencher_0)

lemma contador_jogar:
  "total (filaDePecas g) = FILA_MAX \<Longrightarrow> id_contador (snd (jogarPeca r g)) = id_contador g + 1"
  by (simp add: jogarPeca_def split_beta filaVazia_def FILA_MAX_def gerarPeca_def)

lemma contador_jogadas:
  "total (filaDePecas g) = FILA_MAX \<Longrightarrow>
   id_contador (mainLaco g (replicate k (1, r))) = id_contador g + of_nat k"
proof (induction k arbitrary: g)
  case 0
  then show ?case by simp
next
  case (Suc k)
  let ?g1 = "snd (jogarPeca r g)"
  from Suc.prems have t: "total (filaDePecas ?g1) = FILA_MAX" by (rule total_jogar)
  from Suc.prems have c: "id_contador ?g1 = id_contador g + 1" by (rule contador_jogar)
  show ?case
    using Suc.IH [OF t] c by (simp add: opcaoSwitch_def)
qed

lemma contador_INT_MAX:
  "id_contador (mainLaco (mainInicio f0 p0 rnd) (replicate 2147483642 (1, r))) = 0x7FFFFFFF"
  by (simp add: contador_jogadas total_mainInicio contador_mainInicio)

text \<open>
  Below \<open>INT_MAX\<close> the next id is the id plus 1. The type of a piece is always one of
  the seven letters, which the byte \<open>0xFF\<close> of the invalid piece is not.
\<close>

lemma sint_succ: "sint (c :: c_int) < 2147483647 \<Longrightarrow> sint (c + 1) = sint c + 1"
  using sint_ge [of c] by (simp add: sint_word_ariths signed_take_bit_int_eq_self_iff)

lemma gerarPeca_sucessivas:
  "sint c < 2147483647 \<Longrightarrow>
   sint (idp (fst (gerarPeca r2 (snd (gerarPeca r1 c))))) = sint (idp (fst (gerarPeca r1 c))) + 1"
  by (simp add: gerarPeca_def sint_succ)

lemma nome_gerarPeca: "nome (fst (gerarPeca r c)) \<in> set tipos"
proof -
  have "r mod 7 < length tipos" by (simp add: tipos_def)
  then have "tipos ! (r mod 7) \<in> set tipos" by (rule nth_mem)
  then show ?thesis by (simp add: gerarPeca_def)
qed

lemma gerarPeca_valida: "fst (gerarPeca r c) \<noteq> peca_invalida"
proof
  assume "fst (gerarPeca r c) = peca_invalida"
  then have "nome (fst (gerarPeca r c)) = nome peca_invalida" by simp
  with nome_gerarPeca [of r c] show False
    by (simp add: peca_invalida_def tipos_def)
qed

section \<open>The claims\<close>

text \<open>
  C1 (refill discipline). \<open>main\<close> fills the queue with 5 pieces; after any sequence of
  the commands 1 (play) and 2 (reserve) the queue holds exactly \<open>FILA_MAX = 5\<close> pieces, and
  the state is well formed. The state after a sequence is also the state after each of its
  prefixes, so this holds after every single command. In such a state command 1 succeeds:
  it reports the piece at the front, the other four pieces move up one place, the last
  place holds the generated piece (the type \<open>tipos[r % 7]\<close>, the id the counter had), the
  count is 5 again, the counter is one more and the stack is as it was. Command 2, when the
  stack is not full, does the same to the queue and the counter, and the piece that was at
  the front is the new top of the stack, above the pieces the stack had.
\<close>

theorem refill_discipline:
  "((\<forall>c \<in> set cs. fst c = 1 \<or> fst c = 2) \<longrightarrow>
      total (filaDePecas (mainLaco (mainInicio f0 p0 rnd) cs)) = FILA_MAX) \<and>
   (length (itens f0) = 5 \<and> length (itensP p0) = 3 \<longrightarrow>
      jogo_ok (mainLaco (mainInicio f0 p0 rnd) cs)) \<and>
   (jogo_ok g \<and> total (filaDePecas g) = FILA_MAX \<longrightarrow>
      fst (opcaoSwitch 1 r g) = PecaJogada (posFila (filaDePecas g) 0) \<and>
      posFila (filaDePecas (snd (opcaoSwitch 1 r g))) 0 = posFila (filaDePecas g) 1 \<and>
      posFila (filaDePecas (snd (opcaoSwitch 1 r g))) 1 = posFila (filaDePecas g) 2 \<and>
      posFila (filaDePecas (snd (opcaoSwitch 1 r g))) 2 = posFila (filaDePecas g) 3 \<and>
      posFila (filaDePecas (snd (opcaoSwitch 1 r g))) 3 = posFila (filaDePecas g) 4 \<and>
      posFila (filaDePecas (snd (opcaoSwitch 1 r g))) 4 =
        \<lparr>nome = tipos ! (r mod 7), idp = id_contador g\<rparr> \<and>
      total (filaDePecas (snd (opcaoSwitch 1 r g))) = FILA_MAX \<and>
      pilhaDeReserva (snd (opcaoSwitch 1 r g)) = pilhaDeReserva g \<and>
      id_contador (snd (opcaoSwitch 1 r g)) = id_contador g + 1) \<and>
   (jogo_ok g \<and> total (filaDePecas g) = FILA_MAX \<and> \<not> pilhaCheia (pilhaDeReserva g) \<longrightarrow>
      fst (opcaoSwitch 2 r g) = PecaReservada (posFila (filaDePecas g) 0) \<and>
      posFila (filaDePecas (snd (opcaoSwitch 2 r g))) 0 = posFila (filaDePecas g) 1 \<and>
      posFila (filaDePecas (snd (opcaoSwitch 2 r g))) 1 = posFila (filaDePecas g) 2 \<and>
      posFila (filaDePecas (snd (opcaoSwitch 2 r g))) 2 = posFila (filaDePecas g) 3 \<and>
      posFila (filaDePecas (snd (opcaoSwitch 2 r g))) 3 = posFila (filaDePecas g) 4 \<and>
      posFila (filaDePecas (snd (opcaoSwitch 2 r g))) 4 =
        \<lparr>nome = tipos ! (r mod 7), idp = id_contador g\<rparr> \<and>
      total (filaDePecas (snd (opcaoSwitch 2 r g))) = FILA_MAX \<and>
      topo (pilhaDeReserva (snd (opcaoSwitch 2 r g))) = topo (pilhaDeReserva g) + 1 \<and>
      posPilha (pilhaDeReserva (snd (opcaoSwitch 2 r g))) 0 = posFila (filaDePecas g) 0 \<and>
      (\<forall>k. k \<noteq> nat (topo (pilhaDeReserva g) + 1) \<longrightarrow>
         itensP (pilhaDeReserva (snd (opcaoSwitch 2 r g))) ! k = itensP (pilhaDeReserva g) ! k) \<and>
      length (itensP (pilhaDeReserva (snd (opcaoSwitch 2 r g)))) =
        length (itensP (pilhaDeReserva g)) \<and>
      id_contador (snd (opcaoSwitch 2 r g)) = id_contador g + 1)"
proof -
  have s1: "opcaoSwitch 1 r g = jogarPeca r g" and s2: "opcaoSwitch 2 r g = reservarPeca r g"
    by (simp_all add: opcaoSwitch_def)
  have a: "(\<forall>c \<in> set cs. fst c = 1 \<or> fst c = 2) \<longrightarrow>
      total (filaDePecas (mainLaco (mainInicio f0 p0 rnd) cs)) = FILA_MAX"
    by (simp add: total_mainLaco total_mainInicio)
  have b: "length (itens f0) = 5 \<and> length (itensP p0) = 3 \<longrightarrow>
      jogo_ok (mainLaco (mainInicio f0 p0 rnd) cs)"
    by (simp add: jogo_ok_main)
  show ?thesis
    unfolding s1 s2 using a b jogarPeca_ok [of g r] reservarPeca_ok [of g r] by blast
qed

theorem refill_discipline_witness:
  "set (map fst [(1, 0), (2, 3), (1, 4::nat)]) \<subseteq> {1, 2::int} \<and>
   total (filaDePecas (mainLaco (mainInicio exemploFila exemploPilha (\<lambda>k. k))
     [(1, 0), (2, 3), (1, 4)])) = FILA_MAX \<and>
   (length (itens exemploFila) = 5 \<and> length (itensP exemploPilha) = 3) \<and>
   jogo_ok (mainLaco (mainInicio exemploFila exemploPilha (\<lambda>k. k)) [(1, 0), (2, 3), (1, 4)]) \<and>
   (jogo_ok exemplo \<and> total (filaDePecas exemplo) = FILA_MAX) \<and>
   fst (opcaoSwitch 1 3 exemplo) = PecaJogada \<lparr>nome = CHR ''I'', idp = 0\<rparr> \<and>
   posFila (filaDePecas (snd (opcaoSwitch 1 3 exemplo))) 0 = \<lparr>nome = CHR ''O'', idp = 1\<rparr> \<and>
   posFila (filaDePecas (snd (opcaoSwitch 1 3 exemplo))) 3 = \<lparr>nome = CHR ''S'', idp = 4\<rparr> \<and>
   posFila (filaDePecas (snd (opcaoSwitch 1 3 exemplo))) 4 = \<lparr>nome = CHR ''L'', idp = 13\<rparr> \<and>
   id_contador (snd (opcaoSwitch 1 3 exemplo)) = 14 \<and>
   (jogo_ok (exemplo\<lparr>pilhaDeReserva := inicializarPilha exemploPilha\<rparr>) \<and>
    total (filaDePecas (exemplo\<lparr>pilhaDeReserva := inicializarPilha exemploPilha\<rparr>)) = FILA_MAX \<and>
    \<not> pilhaCheia (pilhaDeReserva (exemplo\<lparr>pilhaDeReserva := inicializarPilha exemploPilha\<rparr>))) \<and>
   fst (opcaoSwitch 2 3 (exemplo\<lparr>pilhaDeReserva := inicializarPilha exemploPilha\<rparr>)) =
     PecaReservada \<lparr>nome = CHR ''I'', idp = 0\<rparr> \<and>
   posPilha (pilhaDeReserva
       (snd (opcaoSwitch 2 3 (exemplo\<lparr>pilhaDeReserva := inicializarPilha exemploPilha\<rparr>)))) 0 =
     \<lparr>nome = CHR ''I'', idp = 0\<rparr> \<and>
   posFila (filaDePecas
       (snd (opcaoSwitch 2 3 (exemplo\<lparr>pilhaDeReserva := inicializarPilha exemploPilha\<rparr>)))) 4 =
     \<lparr>nome = CHR ''L'', idp = 13\<rparr>"
proof -
  let ?cs = "[(1, 0), (2, 3), (1, 4::nat)] :: (int \<times> nat) list"
  let ?livre = "exemplo\<lparr>pilhaDeReserva := inicializarPilha exemploPilha\<rparr>"
  have h1: "\<forall>c \<in> set ?cs. fst c = 1 \<or> fst c = 2"
    by simp
  have h2: "length (itens exemploFila) = 5 \<and> length (itensP exemploPilha) = 3"
    by (simp add: exemploFila_def exemploPilha_def)
  have h3: "jogo_ok exemplo \<and> total (filaDePecas exemplo) = FILA_MAX"
    by (simp add: jogo_ok_exemplo) (simp add: exemplo_def exemploFila_def FILA_MAX_def)
  have h4: "jogo_ok ?livre \<and> total (filaDePecas ?livre) = FILA_MAX \<and>
      \<not> pilhaCheia (pilhaDeReserva ?livre)"
    by (simp add: jogo_ok_def exemplo_def exemploFila_def exemploPilha_def fila_inv_def
        pilha_inv_def inicializarPilha_def pilhaCheia_def FILA_MAX_def PILHA_MAX_def)
  have v: "posFila (filaDePecas exemplo) 0 = \<lparr>nome = CHR ''I'', idp = 0\<rparr>"
      "posFila (filaDePecas exemplo) 1 = \<lparr>nome = CHR ''O'', idp = 1\<rparr>"
      "posFila (filaDePecas exemplo) 4 = \<lparr>nome = CHR ''S'', idp = 4\<rparr>"
      "posFila (filaDePecas ?livre) 0 = \<lparr>nome = CHR ''I'', idp = 0\<rparr>"
      "tipos ! 3 = CHR ''L''"
      "id_contador exemplo = 13" "id_contador ?livre = 13"
    by (simp_all add: exemplo_def exemploFila_def posFila_def FILA_MAX_def smod_5_simps tipos_def)
  have a: "total (filaDePecas (mainLaco (mainInicio exemploFila exemploPilha (\<lambda>k. k)) ?cs)) =
      FILA_MAX"
    using h1 refill_discipline [of ?cs exemploFila exemploPilha "\<lambda>k. k"] by blast
  have b: "jogo_ok (mainLaco (mainInicio exemploFila exemploPilha (\<lambda>k. k)) ?cs)"
    using h2 refill_discipline [of ?cs exemploFila exemploPilha "\<lambda>k. k"] by blast
  have c: "fst (opcaoSwitch 1 3 exemplo) = PecaJogada (posFila (filaDePecas exemplo) 0) \<and>
      posFila (filaDePecas (snd (opcaoSwitch 1 3 exemplo))) 0 = posFila (filaDePecas exemplo) 1 \<and>
      posFila (filaDePecas (snd (opcaoSwitch 1 3 exemplo))) 3 = posFila (filaDePecas exemplo) 4 \<and>
      posFila (filaDePecas (snd (opcaoSwitch 1 3 exemplo))) 4 =
        \<lparr>nome = tipos ! (3 mod 7), idp = id_contador exemplo\<rparr> \<and>
      id_contador (snd (opcaoSwitch 1 3 exemplo)) = id_contador exemplo + 1"
    using h3 refill_discipline [of _ _ _ _ exemplo 3] by blast
  have d: "fst (opcaoSwitch 2 3 ?livre) = PecaReservada (posFila (filaDePecas ?livre) 0) \<and>
      posPilha (pilhaDeReserva (snd (opcaoSwitch 2 3 ?livre))) 0 = posFila (filaDePecas ?livre) 0 \<and>
      posFila (filaDePecas (snd (opcaoSwitch 2 3 ?livre))) 4 =
        \<lparr>nome = tipos ! (3 mod 7), idp = id_contador ?livre\<rparr>"
    using h4 refill_discipline [of _ _ _ _ ?livre 3] by blast
  show ?thesis
    using a b c d h2 h3 h4 by (simp add: v)
qed

text \<open>
  C2 (exchange of three). Command 5 prints the failure message and leaves the state as it
  is when the queue holds fewer than 3 pieces or the top of the stack is below 2. Otherwise,
  in a well-formed state, for \<open>i = 0, 1, 2\<close> the piece \<open>i\<close> places behind the front of
  the queue (modulo 5) and the piece \<open>i\<close> places below the top of the stack change
  places; the places 3 and 4 of the queue keep their pieces; the indices, the counts, the
  sizes of the arrays and the id counter stay as they are. The stack has three slots, so
  none lies below the three exchanged.
\<close>

theorem trocaMultipla_semantics:
  "(total (filaDePecas g) < 3 \<or> topo (pilhaDeReserva g) < 2 \<longrightarrow>
      opcaoSwitch 5 r g = (TrocaMultiplaImpossivel, g)) \<and>
   (jogo_ok g \<and> 3 \<le> total (filaDePecas g) \<and> 2 \<le> topo (pilhaDeReserva g) \<longrightarrow>
      fst (opcaoSwitch 5 r g) = TrocaMultiplaRealizada \<and>
      (\<forall>i \<in> {0, 1, 2}.
         posFila (filaDePecas (snd (opcaoSwitch 5 r g))) i = posPilha (pilhaDeReserva g) i \<and>
         posPilha (pilhaDeReserva (snd (opcaoSwitch 5 r g))) i = posFila (filaDePecas g) i) \<and>
      (\<forall>i \<in> {3, 4}.
         posFila (filaDePecas (snd (opcaoSwitch 5 r g))) i = posFila (filaDePecas g) i) \<and>
      total (filaDePecas (snd (opcaoSwitch 5 r g))) = total (filaDePecas g) \<and>
      inicio (filaDePecas (snd (opcaoSwitch 5 r g))) = inicio (filaDePecas g) \<and>
      fim (filaDePecas (snd (opcaoSwitch 5 r g))) = fim (filaDePecas g) \<and>
      topo (pilhaDeReserva (snd (opcaoSwitch 5 r g))) = topo (pilhaDeReserva g) \<and>
      length (itens (filaDePecas (snd (opcaoSwitch 5 r g)))) = length (itens (filaDePecas g)) \<and>
      length (itensP (pilhaDeReserva (snd (opcaoSwitch 5 r g)))) =
        length (itensP (pilhaDeReserva g)) \<and>
      id_contador (snd (opcaoSwitch 5 r g)) = id_contador g)"
proof -
  have sw: "opcaoSwitch 5 r g = trocaMultipla g"
    by (simp add: opcaoSwitch_def)
  have fail: "total (filaDePecas g) < 3 \<or> topo (pilhaDeReserva g) < 2 \<longrightarrow>
      trocaMultipla g = (TrocaMultiplaImpossivel, g)"
    by (simp add: trocaMultipla_fail)
  have ok: "jogo_ok g \<and> 3 \<le> total (filaDePecas g) \<and> 2 \<le> topo (pilhaDeReserva g) \<longrightarrow>
      fst (trocaMultipla g) = TrocaMultiplaRealizada \<and>
      (\<forall>i \<in> {0, 1, 2}.
         posFila (filaDePecas (snd (trocaMultipla g))) i = posPilha (pilhaDeReserva g) i \<and>
         posPilha (pilhaDeReserva (snd (trocaMultipla g))) i = posFila (filaDePecas g) i) \<and>
      (\<forall>i \<in> {3, 4}.
         posFila (filaDePecas (snd (trocaMultipla g))) i = posFila (filaDePecas g) i)"
    using trocaMultipla_ok [of g] by (simp add: not_less)
  show ?thesis
    unfolding sw using fail ok trocaMultipla_frame [of g] by blast
qed

theorem trocaMultipla_semantics_witness:
  "(total (filaDePecas (inicial exemploFila exemploPilha)) < 3 \<or>
      topo (pilhaDeReserva (inicial exemploFila exemploPilha)) < 2) \<and>
   opcaoSwitch 5 0 (inicial exemploFila exemploPilha) =
     (TrocaMultiplaImpossivel, inicial exemploFila exemploPilha) \<and>
   (jogo_ok exemplo \<and> 3 \<le> total (filaDePecas exemplo) \<and> 2 \<le> topo (pilhaDeReserva exemplo)) \<and>
   fst (opcaoSwitch 5 0 exemplo) = TrocaMultiplaRealizada \<and>
   posFila (filaDePecas (snd (opcaoSwitch 5 0 exemplo))) 0 = posPilha (pilhaDeReserva exemplo) 0 \<and>
   posFila (filaDePecas (snd (opcaoSwitch 5 0 exemplo))) 1 = posPilha (pilhaDeReserva exemplo) 1 \<and>
   posFila (filaDePecas (snd (opcaoSwitch 5 0 exemplo))) 2 = posPilha (pilhaDeReserva exemplo) 2 \<and>
   posPilha (pilhaDeReserva (snd (opcaoSwitch 5 0 exemplo))) 0 = posFila (filaDePecas exemplo) 0 \<and>
   posPilha (pilhaDeReserva (snd (opcaoSwitch 5 0 exemplo))) 1 = posFila (filaDePecas exemplo) 1 \<and>
   posPilha (pilhaDeReserva (snd (opcaoSwitch 5 0 exemplo))) 2 = posFila (filaDePecas exemplo) 2 \<and>
   posFila (filaDePecas (snd (opcaoSwitch 5 0 exemplo))) 3 = posFila (filaDePecas exemplo) 3 \<and>
   posFila (filaDePecas (snd (opcaoSwitch 5 0 exemplo))) 4 = posFila (filaDePecas exemplo) 4"
proof -
  have h1: "total (filaDePecas (inicial exemploFila exemploPilha)) < 3 \<or>
      topo (pilhaDeReserva (inicial exemploFila exemploPilha)) < 2"
    by (simp add: inicial_def inicializarFila_def)
  have h2: "jogo_ok exemplo \<and> 3 \<le> total (filaDePecas exemplo) \<and> 2 \<le> topo (pilhaDeReserva exemplo)"
    by (simp add: jogo_ok_exemplo) (simp add: exemplo_def exemploFila_def exemploPilha_def)
  show ?thesis
    using h1 h2 trocaMultipla_semantics [of "inicial exemploFila exemploPilha" 0]
      trocaMultipla_semantics [of exemplo 0]
    by simp
qed

text \<open>
  C3 (exchange of the front). Command 4 prints the failure message and leaves the state as
  it is when the queue or the stack is empty. Otherwise, in a well-formed state, the piece
  at the front of the queue and the piece on top of the stack change places; every other
  slot of both arrays keeps its piece; the indices, the counts, the sizes of the arrays
  and the id counter (no piece is generated) stay as they are.
\<close>

theorem trocarFrente_semantics:
  "(filaVazia (filaDePecas g) \<or> pilhaVazia (pilhaDeReserva g) \<longrightarrow>
      opcaoSwitch 4 r g = (TrocaImpossivel, g)) \<and>
   (jogo_ok g \<and> \<not> filaVazia (filaDePecas g) \<and> \<not> pilhaVazia (pilhaDeReserva g) \<longrightarrow>
      fst (opcaoSwitch 4 r g) = TrocaRealizada \<and>
      itens (filaDePecas (snd (opcaoSwitch 4 r g))) !
          nat (inicio (filaDePecas (snd (opcaoSwitch 4 r g)))) =
        itensP (pilhaDeReserva g) ! nat (topo (pilhaDeReserva g)) \<and>
      itensP (pilhaDeReserva (snd (opcaoSwitch 4 r g))) !
          nat (topo (pilhaDeReserva (snd (opcaoSwitch 4 r g)))) =
        itens (filaDePecas g) ! nat (inicio (filaDePecas g)) \<and>
      (\<forall>k. k \<noteq> nat (inicio (filaDePecas g)) \<longrightarrow>
         itens (filaDePecas (snd (opcaoSwitch 4 r g))) ! k = itens (filaDePecas g) ! k) \<and>
      (\<forall>k. k \<noteq> nat (topo (pilhaDeReserva g)) \<longrightarrow>
         itensP (pilhaDeReserva (snd (opcaoSwitch 4 r g))) ! k = itensP (pilhaDeReserva g) ! k) \<and>
      total (filaDePecas (snd (opcaoSwitch 4 r g))) = total (filaDePecas g) \<and>
      inicio (filaDePecas (snd (opcaoSwitch 4 r g))) = inicio (filaDePecas g) \<and>
      fim (filaDePecas (snd (opcaoSwitch 4 r g))) = fim (filaDePecas g) \<and>
      topo (pilhaDeReserva (snd (opcaoSwitch 4 r g))) = topo (pilhaDeReserva g) \<and>
      length (itens (filaDePecas (snd (opcaoSwitch 4 r g)))) = length (itens (filaDePecas g)) \<and>
      length (itensP (pilhaDeReserva (snd (opcaoSwitch 4 r g)))) =
        length (itensP (pilhaDeReserva g)) \<and>
      id_contador (snd (opcaoSwitch 4 r g)) = id_contador g)"
proof -
  have sw: "opcaoSwitch 4 r g = trocarFrente g"
    by (simp add: opcaoSwitch_def)
  have fail: "filaVazia (filaDePecas g) \<or> pilhaVazia (pilhaDeReserva g) \<longrightarrow>
      trocarFrente g = (TrocaImpossivel, g)"
    by (simp add: trocarFrente_fail)
  have ok: "jogo_ok g \<and> \<not> filaVazia (filaDePecas g) \<and> \<not> pilhaVazia (pilhaDeReserva g) \<longrightarrow>
      fst (trocarFrente g) = TrocaRealizada \<and>
      itens (filaDePecas (snd (trocarFrente g))) !
          nat (inicio (filaDePecas (snd (trocarFrente g)))) =
        itensP (pilhaDeReserva g) ! nat (topo (pilhaDeReserva g)) \<and>
      itensP (pilhaDeReserva (snd (trocarFrente g))) !
          nat (topo (pilhaDeReserva (snd (trocarFrente g)))) =
        itens (filaDePecas g) ! nat (inicio (filaDePecas g)) \<and>
      (\<forall>k. k \<noteq> nat (inicio (filaDePecas g)) \<longrightarrow>
         itens (filaDePecas (snd (trocarFrente g))) ! k = itens (filaDePecas g) ! k) \<and>
      (\<forall>k. k \<noteq> nat (topo (pilhaDeReserva g)) \<longrightarrow>
         itensP (pilhaDeReserva (snd (trocarFrente g))) ! k = itensP (pilhaDeReserva g) ! k)"
    using trocarFrente_ok [of g] by simp
  show ?thesis
    unfolding sw using fail ok trocarFrente_frame [of g] by blast
qed

theorem trocarFrente_semantics_witness:
  "(filaVazia (filaDePecas (inicial exemploFila exemploPilha)) \<or>
      pilhaVazia (pilhaDeReserva (inicial exemploFila exemploPilha))) \<and>
   opcaoSwitch 4 0 (inicial exemploFila exemploPilha) =
     (TrocaImpossivel, inicial exemploFila exemploPilha) \<and>
   (jogo_ok exemplo \<and> \<not> filaVazia (filaDePecas exemplo) \<and> \<not> pilhaVazia (pilhaDeReserva exemplo)) \<and>
   fst (opcaoSwitch 4 0 exemplo) = TrocaRealizada \<and>
   itens (filaDePecas (snd (opcaoSwitch 4 0 exemplo))) !
       nat (inicio (filaDePecas (snd (opcaoSwitch 4 0 exemplo)))) =
     \<lparr>nome = CHR ''I'', idp = 12\<rparr> \<and>
   itensP (pilhaDeReserva (snd (opcaoSwitch 4 0 exemplo))) !
       nat (topo (pilhaDeReserva (snd (opcaoSwitch 4 0 exemplo)))) =
     \<lparr>nome = CHR ''I'', idp = 0\<rparr>"
proof -
  have h1: "filaVazia (filaDePecas (inicial exemploFila exemploPilha)) \<or>
      pilhaVazia (pilhaDeReserva (inicial exemploFila exemploPilha))"
    by (simp add: inicial_def inicializarFila_def filaVazia_def)
  have h2: "jogo_ok exemplo \<and> \<not> filaVazia (filaDePecas exemplo) \<and>
      \<not> pilhaVazia (pilhaDeReserva exemplo)"
    by (simp add: jogo_ok_exemplo)
      (simp add: exemplo_def exemploFila_def exemploPilha_def filaVazia_def pilhaVazia_def)
  have v: "itensP (pilhaDeReserva exemplo) ! nat (topo (pilhaDeReserva exemplo)) =
        \<lparr>nome = CHR ''I'', idp = 12\<rparr>"
      "itens (filaDePecas exemplo) ! nat (inicio (filaDePecas exemplo)) =
        \<lparr>nome = CHR ''I'', idp = 0\<rparr>"
    by (simp_all add: exemplo_def exemploFila_def exemploPilha_def)
  have fl: "opcaoSwitch 4 0 (inicial exemploFila exemploPilha) =
      (TrocaImpossivel, inicial exemploFila exemploPilha)"
    using h1 trocarFrente_semantics [of "inicial exemploFila exemploPilha" 0] by blast
  have ok: "fst (opcaoSwitch 4 0 exemplo) = TrocaRealizada \<and>
      itens (filaDePecas (snd (opcaoSwitch 4 0 exemplo))) !
          nat (inicio (filaDePecas (snd (opcaoSwitch 4 0 exemplo)))) =
        itensP (pilhaDeReserva exemplo) ! nat (topo (pilhaDeReserva exemplo)) \<and>
      itensP (pilhaDeReserva (snd (opcaoSwitch 4 0 exemplo))) !
          nat (topo (pilhaDeReserva (snd (opcaoSwitch 4 0 exemplo)))) =
        itens (filaDePecas exemplo) ! nat (inicio (filaDePecas exemplo))"
    using h2 trocarFrente_semantics [of exemplo 0] by blast
  show ?thesis
    using h1 h2 fl ok by (simp add: v)
qed

text \<open>
  C4 (involution). In a well-formed state where command 4 succeeds, a second command 4
  succeeds too and gives back the whole state; the same holds for command 5.
\<close>

theorem trocas_involution:
  "(jogo_ok g \<and> \<not> filaVazia (filaDePecas g) \<and> \<not> pilhaVazia (pilhaDeReserva g) \<longrightarrow>
      fst (opcaoSwitch 4 r g) = TrocaRealizada \<and>
      opcaoSwitch 4 r' (snd (opcaoSwitch 4 r g)) = (TrocaRealizada, g)) \<and>
   (jogo_ok g \<and> 3 \<le> total (filaDePecas g) \<and> 2 \<le> topo (pilhaDeReserva g) \<longrightarrow>
      fst (opcaoSwitch 5 r g) = TrocaMultiplaRealizada \<and>
      opcaoSwitch 5 r' (snd (opcaoSwitch 5 r g)) = (TrocaMultiplaRealizada, g))"
proof (intro conjI impI)
  assume a: "jogo_ok g \<and> \<not> filaVazia (filaDePecas g) \<and> \<not> pilhaVazia (pilhaDeReserva g)"
  then have pre: "\<not> (filaVazia (filaDePecas g) \<or> pilhaVazia (pilhaDeReserva g))" by simp
  from a have ok: "jogo_ok g" by simp
  show "fst (opcaoSwitch 4 r g) = TrocaRealizada"
    using pre by (simp add: opcaoSwitch_def trocarFrente_def split_beta)
  have ok1: "jogo_ok (snd (trocarFrente g))"
    using ok by (rule jogo_ok_trocarFrente)
  have pre1: "\<not> (filaVazia (filaDePecas (snd (trocarFrente g))) \<or>
      pilhaVazia (pilhaDeReserva (snd (trocarFrente g))))"
    using pre trocarFrente_frame [of g] by (simp add: filaVazia_def pilhaVazia_def)
  have "fst (trocarFrente (snd (trocarFrente g))) = TrocaRealizada"
    using pre1 by (simp add: trocarFrente_def split_beta)
  moreover have "snd (trocarFrente (snd (trocarFrente g))) = g"
    using ok pre by (rule trocarFrente_twice)
  ultimately show "opcaoSwitch 4 r' (snd (opcaoSwitch 4 r g)) = (TrocaRealizada, g)"
    by (simp add: opcaoSwitch_def prod_eq_iff)
next
  assume a: "jogo_ok g \<and> 3 \<le> total (filaDePecas g) \<and> 2 \<le> topo (pilhaDeReserva g)"
  then have pre: "\<not> (total (filaDePecas g) < 3 \<or> topo (pilhaDeReserva g) < 2)"
    by (simp add: not_less)
  from a have ok: "jogo_ok g" by simp
  show "fst (opcaoSwitch 5 r g) = TrocaMultiplaRealizada"
    using pre by (simp add: opcaoSwitch_def trocaMultipla_def split_beta)
  have pre1: "\<not> (total (filaDePecas (snd (trocaMultipla g))) < 3 \<or>
      topo (pilhaDeReserva (snd (trocaMultipla g))) < 2)"
    using pre trocaMultipla_frame [of g] by simp
  have "fst (trocaMultipla (snd (trocaMultipla g))) = TrocaMultiplaRealizada"
    using pre1 by (simp add: trocaMultipla_def split_beta)
  moreover have "snd (trocaMultipla (snd (trocaMultipla g))) = g"
    using ok pre by (rule trocaMultipla_twice)
  ultimately show "opcaoSwitch 5 r' (snd (opcaoSwitch 5 r g)) = (TrocaMultiplaRealizada, g)"
    by (simp add: opcaoSwitch_def prod_eq_iff)
qed

theorem trocas_involution_witness:
  "(jogo_ok exemplo \<and> \<not> filaVazia (filaDePecas exemplo) \<and> \<not> pilhaVazia (pilhaDeReserva exemplo)) \<and>
   opcaoSwitch 4 0 (snd (opcaoSwitch 4 0 exemplo)) = (TrocaRealizada, exemplo) \<and>
   (jogo_ok exemplo \<and> 3 \<le> total (filaDePecas exemplo) \<and> 2 \<le> topo (pilhaDeReserva exemplo)) \<and>
   opcaoSwitch 5 0 (snd (opcaoSwitch 5 0 exemplo)) = (TrocaMultiplaRealizada, exemplo)"
proof -
  have h1: "jogo_ok exemplo \<and> \<not> filaVazia (filaDePecas exemplo) \<and>
      \<not> pilhaVazia (pilhaDeReserva exemplo)"
    by (simp add: jogo_ok_exemplo)
      (simp add: exemplo_def exemploFila_def exemploPilha_def filaVazia_def pilhaVazia_def)
  have h2: "jogo_ok exemplo \<and> 3 \<le> total (filaDePecas exemplo) \<and> 2 \<le> topo (pilhaDeReserva exemplo)"
    by (simp add: jogo_ok_exemplo) (simp add: exemplo_def exemploFila_def exemploPilha_def)
  show ?thesis
    using h1 h2 trocas_involution [of exemplo 0 0] by blast
qed

text \<open>
  C5 (removal from an empty container). \<open>removerFila\<close> on an empty queue and \<open>popPilha\<close>
  on an empty stack return the invalid piece, whose id is \<open>-1\<close>, and the container as it
  was; it is still empty.
\<close>

theorem remocao_vazia_sentinela:
  "(filaVazia f \<longrightarrow> removerFila f = (peca_invalida, f) \<and> filaVazia (snd (removerFila f))) \<and>
   (pilhaVazia p \<longrightarrow> popPilha p = (peca_invalida, p) \<and> pilhaVazia (snd (popPilha p))) \<and>
   sint (idp peca_invalida) = - 1"
  by (simp add: removerFila_def popPilha_def peca_invalida_def)

theorem remocao_vazia_sentinela_witness:
  "filaVazia (inicializarFila exemploFila) \<and>
   removerFila (inicializarFila exemploFila) = (peca_invalida, inicializarFila exemploFila) \<and>
   filaVazia (snd (removerFila (inicializarFila exemploFila))) \<and>
   pilhaVazia (inicializarPilha exemploPilha) \<and>
   popPilha (inicializarPilha exemploPilha) = (peca_invalida, inicializarPilha exemploPilha) \<and>
   pilhaVazia (snd (popPilha (inicializarPilha exemploPilha)))"
proof -
  have h1: "filaVazia (inicializarFila exemploFila)"
    by (simp add: filaVazia_def inicializarFila_def)
  have h2: "pilhaVazia (inicializarPilha exemploPilha)"
    by (simp add: pilhaVazia_def inicializarPilha_def)
  show ?thesis
    using h1 h2
      remocao_vazia_sentinela [of "inicializarFila exemploFila" "inicializarPilha exemploPilha"]
    by blast
qed

text \<open>
  C6 (failure of reserve). Command 2 with a full stack prints the message of the full stack
  and leaves the whole state as it is: queue, stack and id counter, so nothing is taken
  from the queue and nothing is generated. With a stack that is not full and an empty
  queue it prints the message of the empty queue, a different one, and leaves the whole
  state as it is. In every other state it reserves the piece at the front.
\<close>

theorem reservar_falha_atomica:
  "(pilhaCheia (pilhaDeReserva g) \<longrightarrow> opcaoSwitch 2 r g = (ReservaCheia, g)) \<and>
   (\<not> pilhaCheia (pilhaDeReserva g) \<and> filaVazia (filaDePecas g) \<longrightarrow>
      opcaoSwitch 2 r g = (FilaVaziaReservar, g)) \<and>
   (\<not> pilhaCheia (pilhaDeReserva g) \<and> \<not> filaVazia (filaDePecas g) \<longrightarrow>
      fst (opcaoSwitch 2 r g) =
        PecaReservada (itens (filaDePecas g) ! nat (inicio (filaDePecas g)))) \<and>
   ReservaCheia \<noteq> FilaVaziaReservar"
  by (simp add: opcaoSwitch_def reservarPeca_def split_beta removerFila_def)

theorem reservar_falha_atomica_witness:
  "pilhaCheia (pilhaDeReserva exemplo) \<and>
   opcaoSwitch 2 0 exemplo = (ReservaCheia, exemplo) \<and>
   (\<not> pilhaCheia (pilhaDeReserva (inicial exemploFila exemploPilha)) \<and>
      filaVazia (filaDePecas (inicial exemploFila exemploPilha))) \<and>
   opcaoSwitch 2 0 (inicial exemploFila exemploPilha) =
     (FilaVaziaReservar, inicial exemploFila exemploPilha) \<and>
   (\<not> pilhaCheia (pilhaDeReserva (exemplo\<lparr>pilhaDeReserva := inicializarPilha exemploPilha\<rparr>)) \<and>
      \<not> filaVazia (filaDePecas (exemplo\<lparr>pilhaDeReserva := inicializarPilha exemploPilha\<rparr>))) \<and>
   fst (opcaoSwitch 2 0 (exemplo\<lparr>pilhaDeReserva := inicializarPilha exemploPilha\<rparr>)) =
     PecaReservada \<lparr>nome = CHR ''I'', idp = 0\<rparr>"
proof -
  let ?livre = "exemplo\<lparr>pilhaDeReserva := inicializarPilha exemploPilha\<rparr>"
  have h1: "pilhaCheia (pilhaDeReserva exemplo)"
    by (simp add: exemplo_def exemploPilha_def pilhaCheia_def PILHA_MAX_def)
  have h2: "\<not> pilhaCheia (pilhaDeReserva (inicial exemploFila exemploPilha)) \<and>
      filaVazia (filaDePecas (inicial exemploFila exemploPilha))"
    by (simp add: inicial_def inicializarFila_def inicializarPilha_def pilhaCheia_def
        filaVazia_def PILHA_MAX_def)
  have h3: "\<not> pilhaCheia (pilhaDeReserva ?livre) \<and> \<not> filaVazia (filaDePecas ?livre)"
    by (simp add: exemplo_def exemploFila_def inicializarPilha_def pilhaCheia_def
        filaVazia_def PILHA_MAX_def)
  have v: "itens (filaDePecas ?livre) ! nat (inicio (filaDePecas ?livre)) =
      \<lparr>nome = CHR ''I'', idp = 0\<rparr>"
    by (simp add: exemplo_def exemploFila_def)
  show ?thesis
    using h1 h2 h3 reservar_falha_atomica [of exemplo 0]
      reservar_falha_atomica [of "inicial exemploFila exemploPilha" 0]
      reservar_falha_atomica [of ?livre 0]
    unfolding v by blast
qed

text \<open>
  C7 (ids strictly increasing), at the input where the code departs from it. After the
  start of \<open>main\<close> and 2147483642 pieces played the counter is \<open>INT_MAX\<close>. The next
  piece generated has the id 2147483647; the increment leaves the range of \<open>int\<close>, and
  the piece generated after it has the id -2147483648, which is smaller.
\<close>

theorem id_contador_overflow:
  "id_contador (mainLaco (mainInicio f0 p0 rnd) (replicate 2147483642 (1, r))) = 0x7FFFFFFF \<and>
   sint (idp (fst (gerarPeca r1 0x7FFFFFFF))) = 2147483647 \<and>
   sint (idp (fst (gerarPeca r2 (snd (gerarPeca r1 0x7FFFFFFF))))) = - 2147483648 \<and>
   sint (idp (fst (gerarPeca r2 (snd (gerarPeca r1 0x7FFFFFFF)))))
     < sint (idp (fst (gerarPeca r1 0x7FFFFFFF)))"
  by (simp add: contador_INT_MAX) (simp add: gerarPeca_def)

text \<open>
  C8 (insertion into a full container). \<open>inserirFila\<close> on a full queue and \<open>pushPilha\<close>
  on a full stack return the container as it was: no slot, index or count changes.
\<close>

theorem insercao_cheia_noop:
  "(filaCheia f \<longrightarrow> inserirFila f x = f) \<and> (pilhaCheia p \<longrightarrow> pushPilha p x = p)"
  by (simp add: inserirFila_def pushPilha_def)

theorem insercao_cheia_noop_witness:
  "filaCheia exemploFila \<and> inserirFila exemploFila \<lparr>nome = CHR ''J'', idp = 13\<rparr> = exemploFila \<and>
   pilhaCheia exemploPilha \<and> pushPilha exemploPilha \<lparr>nome = CHR ''J'', idp = 13\<rparr> = exemploPilha"
proof -
  have h1: "filaCheia exemploFila"
    by (simp add: exemploFila_def filaCheia_def FILA_MAX_def)
  have h2: "pilhaCheia exemploPilha"
    by (simp add: exemploPilha_def pilhaCheia_def PILHA_MAX_def)
  show ?thesis
    using h1 h2 insercao_cheia_noop [of exemploFila "\<lparr>nome = CHR ''J'', idp = 13\<rparr>" exemploPilha]
    by blast
qed

text \<open>
  C9 (indices of the queue). In every state that a sequence of insertions, removals,
  pushes, pops and commands leads to from the initialised containers,
  \<open>fim = (inicio + total) mod 5\<close>, \<open>0 \<le> total \<le> 5\<close> and \<open>0 \<le> inicio < 5\<close>.
  \<open>inicializarFila\<close> establishes this, and \<open>inserirFila\<close>, \<open>removerFila\<close> and every
  command (the two exchanges among them) preserve it.
\<close>

theorem tail_index_invariant:
  "fila_inv (filaDePecas (executar (inicial f0 p0) ops)) \<and>
   fila_inv (inicializarFila f0) \<and>
   (fila_inv f \<longrightarrow> fila_inv (inserirFila f x) \<and> fila_inv (snd (removerFila f))) \<and>
   (fila_inv (filaDePecas g) \<longrightarrow>
      fila_inv (filaDePecas (snd (opcaoSwitch opcao r g))))"
  by (simp add: fila_inv_inicial fila_inv_inicializar fila_inv_inserir fila_inv_remover
      fila_inv_opcaoSwitch)

theorem tail_index_invariant_witness:
  "fila_inv exemploFila \<and>
   fila_inv (inserirFila exemploFila \<lparr>nome = CHR ''J'', idp = 13\<rparr>) \<and>
   fila_inv (snd (removerFila exemploFila)) \<and>
   fila_inv (filaDePecas exemplo) \<and>
   fila_inv (filaDePecas (snd (opcaoSwitch 4 0 exemplo))) \<and>
   fila_inv (filaDePecas (executar (inicial exemploFila exemploPilha)
     [Inserir \<lparr>nome = CHR ''J'', idp = 13\<rparr>, Remover, Opcao 1 3]))"
proof -
  have h1: "fila_inv exemploFila"
    by (simp add: exemploFila_def fila_inv_def FILA_MAX_def)
  have h2: "fila_inv (filaDePecas exemplo)"
    using h1 by (simp add: exemplo_def)
  show ?thesis
    using h1 h2
      tail_index_invariant [of exemploFila exemploPilha
        "[Inserir \<lparr>nome = CHR ''J'', idp = 13\<rparr>, Remover, Opcao 1 3]"
        exemploFila "\<lparr>nome = CHR ''J'', idp = 13\<rparr>" exemplo 4 0]
    by blast
qed

text \<open>
  C10 (generated pieces and the invalid piece), at the inputs where the code departs from
  it. After the start of \<open>main\<close> and 2147483643 pieces played the counter has passed
  \<open>INT_MAX\<close>: the piece generated then has a negative id, and the piece generated at the
  counter \<open>0xFFFFFFFF\<close> has the id \<open>-1\<close> of the invalid piece. (The type of a generated
  piece is one of the seven letters in every call, \<open>nome_gerarPeca\<close>, and so the piece as
  a whole differs from the invalid one, \<open>gerarPeca_valida\<close>.)
\<close>

theorem id_negativo_apos_overflow:
  "id_contador (mainLaco (mainInicio f0 p0 rnd) (replicate 2147483643 (1, r))) = 0x80000000 \<and>
   sint (idp (fst (gerarPeca r1 0x80000000))) < 0 \<and>
   idp (fst (gerarPeca r2 0xFFFFFFFF)) = idp peca_invalida"
  by (simp add: contador_jogadas total_mainInicio contador_mainInicio)
    (simp add: gerarPeca_def peca_invalida_def)

end
